theory Spec2Isabelle
  imports Main "HOL-Library.Word"
begin

section \<open>Python values\<close>

text \<open>
  The facade of \<^verbatim>\<open>src/claude_client.py\<close> is dynamically typed: the annotations
  (\<^verbatim>\<open>str\<close>, \<^verbatim>\<open>Optional[str]\<close>, \<^verbatim>\<open>int\<close>, \<^verbatim>\<open>float\<close>) are not enforced, and the
  extra options are \<^verbatim>\<open>Any\<close>. Values are therefore one datatype. A float is its IEEE-754
  bit pattern: the code stores and forwards floats and never computes with them. A dict
  is an association list in insertion order, as Python keeps it.
\<close>

datatype pyval =
    PNone
  | PBool bool
  | PInt int
  | PFloat "64 word"
  | PStr string
  | PList "pyval list"
  | PDict "(string \<times> pyval) list"

type_synonym pydict = "(string \<times> pyval) list"

text \<open>Truth value testing, as \<^verbatim>\<open>if x:\<close>, \<^verbatim>\<open>not x\<close> and \<^verbatim>\<open>x or y\<close> apply it.
  The two float zeros (\<^verbatim>\<open>0.0\<close> and \<^verbatim>\<open>-0.0\<close>) are false, every other float is true.\<close>

fun truthy :: "pyval \<Rightarrow> bool" where
  "truthy PNone = False"
| "truthy (PBool b) = b"
| "truthy (PInt i) = (i \<noteq> 0)"
| "truthy (PFloat w) = (w \<noteq> 0 \<and> w \<noteq> 0x8000000000000000)"
| "truthy (PStr s) = (s \<noteq> [])"
| "truthy (PList xs) = (xs \<noteq> [])"
| "truthy (PDict d) = (d \<noteq> [])"

text \<open>\<^verbatim>\<open>d[k] = v\<close>: an existing key keeps its position and takes the new value, a new
  key is appended.\<close>

primrec dict_set :: "pydict \<Rightarrow> string \<Rightarrow> pyval \<Rightarrow> pydict" where
  "dict_set [] k v = [(k, v)]"
| "dict_set (p # ps) k v = (if fst p = k then (k, v) # ps else p # dict_set ps k v)"

text \<open>\<^verbatim>\<open>{**d, **kwargs}\<close>: the entries of \<^verbatim>\<open>kwargs\<close> are stored into \<^verbatim>\<open>d\<close> one after
  the other, in their order.\<close>

definition dict_merge :: "pydict \<Rightarrow> pydict \<Rightarrow> pydict" where
  "dict_merge d kwargs = fold (\<lambda>(k, v) acc. dict_set acc k v) kwargs d"

definition dict_get :: "pydict \<Rightarrow> string \<Rightarrow> pyval option" where
  "dict_get d k = map_of d k"

section \<open>Exceptions\<close>

text \<open>\<^verbatim>\<open>ValueError\<close> carries the message the constructor gives it. \<^verbatim>\<open>TypeError\<close> is what
  the interpreter raises when a call does not fit the signature, \<^verbatim>\<open>IndexError\<close> what
  \<^verbatim>\<open>content[0]\<close> raises on an empty list. \<^verbatim>\<open>VendorError\<close> stands for the exception
  classes of the vendor library, by name. The transport may raise any of them.\<close>

datatype exc = ValueError string | TypeError | IndexError | VendorError string

section \<open>The vendor transport\<close>

text \<open>
  \<^verbatim>\<open>anthropic.Anthropic\<close> is not part of the repository. The handle the constructor
  returns is the value \<open>Anthropic key\<close>; what the library does is a parameter of the
  model, a record of state-passing functions over the transport's own state \<open>'ts\<close>:
  \<^item> \<open>client_new\<close>: the effect of \<^verbatim>\<open>Anthropic(api_key=key)\<close>;
  \<^item> \<open>messages_create\<close>: \<^verbatim>\<open>client.messages.create(**params)\<close>, which returns a response
    or raises;
  \<^item> \<open>messages_stream\<close>: \<^verbatim>\<open>client.messages.stream(**params)\<close> followed by \<^verbatim>\<open>__enter__\<close>;
    it raises (nothing is then acquired) or opens a stream whose \<^verbatim>\<open>text_stream\<close> will
    deliver a finite list of fragments and then end, or raise the given exception;
  \<^item> \<open>stream_exit\<close>: \<^verbatim>\<open>__exit__\<close> of the stream manager, which releases the stream. As
    in the vendor library it returns \<^verbatim>\<open>None\<close>: it neither raises nor suppresses an
    exception.
\<close>

datatype anthropic = Anthropic pyval

datatype content_block = ContentBlock (block_text: string)

datatype response = Response (content: "content_block list")

type_synonym script = "string list \<times> exc option"

record 'ts transport =
  client_new :: "pyval \<Rightarrow> 'ts \<Rightarrow> 'ts"
  messages_create :: "anthropic \<Rightarrow> pydict \<Rightarrow> 'ts \<Rightarrow> (exc + response) \<times> 'ts"
  messages_stream :: "anthropic \<Rightarrow> pydict \<Rightarrow> 'ts \<Rightarrow> (exc + script) \<times> 'ts"
  stream_exit :: "'ts \<Rightarrow> 'ts"

text \<open>The world outside the facade: the process environment (\<^verbatim>\<open>os.environ\<close>) and
  the state of the transport.\<close>

record 'ts world =
  environ :: "(string \<times> string) list"
  tstate :: "'ts"

definition os_getenv :: "'ts world \<Rightarrow> string \<Rightarrow> pyval" where
  "os_getenv w name = (case map_of (environ w) name of None \<Rightarrow> PNone | Some s \<Rightarrow> PStr s)"

text \<open>A stub transport that records every call it receives, in order, and answers
  from two fixed functions of the request.\<close>

datatype call =
    NewClient pyval
  | Create anthropic pydict
  | StreamEnter anthropic pydict
  | StreamExit

definition recording_stub ::
  "(pydict \<Rightarrow> exc + response) \<Rightarrow> (pydict \<Rightarrow> exc + script) \<Rightarrow> (call list) transport" where
  "recording_stub reply frags =
     \<lparr> client_new = (\<lambda>key log. log @ [NewClient key]),
       messages_create = (\<lambda>h params log. (reply params, log @ [Create h params])),
       messages_stream = (\<lambda>h params log. (frags params, log @ [StreamEnter h params])),
       stream_exit = (\<lambda>log. log @ [StreamExit]) \<rparr>"

section \<open>The facade\<close>

record claude_client =
  api_key :: pyval
  client :: anthropic

text \<open>
  \<^verbatim>\<open>ClaudeClient.__init__(self, api_key=None)\<close>, lines 21 to 27. An omitted argument is
  the default \<^verbatim>\<open>None\<close>. \<^verbatim>\<open>api_key or os.getenv(...)\<close> reads the environment only when the
  argument is false.
\<close>

definition ClaudeClient_init ::
  "'ts transport \<Rightarrow> pyval \<Rightarrow> 'ts world \<Rightarrow> (exc + claude_client) \<times> 'ts world" where
  "ClaudeClient_init tr api_key_arg w =
     (let key = (if truthy api_key_arg then api_key_arg
                 else os_getenv w ''ANTHROPIC_API_KEY'')
      in if \<not> truthy key
         then (Inl (ValueError
                 ''API key required. Set ANTHROPIC_API_KEY environment variable or pass api_key parameter.''),
               w)
         else (Inr \<lparr> api_key = key, client = Anthropic key \<rparr>,
               w\<lparr> tstate := client_new tr key (tstate w) \<rparr>))"

text \<open>
  Binding the arguments of a call to \<^verbatim>\<open>chat\<close>, \<^verbatim>\<open>chat_stream\<close> or \<^verbatim>\<open>chat_with_history\<close>.
  The three signatures are
  \<^verbatim>\<open>(self, <first>, model="claude-3-5-sonnet-20241022", system_prompt=None,
    max_tokens=1024, temperature=1.0, **kwargs)\<close>
  with \<^verbatim>\<open><first>\<close> being \<^verbatim>\<open>message\<close> or \<^verbatim>\<open>messages\<close>. A call \<^verbatim>\<open>c.chat(*args, **kw)\<close> gives the
  positional arguments after \<^verbatim>\<open>self\<close> and the keyword arguments. Python fills each
  parameter from its position or from the keyword of its name, raises \<^verbatim>\<open>TypeError\<close> when
  both are given, when a parameter without default gets neither, when there are too
  many positional arguments or a keyword is repeated; the keywords that name no
  parameter are collected, in order, into \<^verbatim>\<open>kwargs\<close>.
\<close>

definition arg_value ::
  "string \<Rightarrow> nat \<Rightarrow> pyval option \<Rightarrow> pyval list \<Rightarrow> pydict \<Rightarrow> exc + pyval" where
  "arg_value name i dflt args kw =
     (if i < length args
      then (case map_of kw name of None \<Rightarrow> Inr (args ! i) | Some v \<Rightarrow> Inl TypeError)
      else (case map_of kw name of
              Some v \<Rightarrow> Inr v
            | None \<Rightarrow> (case dflt of Some d \<Rightarrow> Inr d | None \<Rightarrow> Inl TypeError)))"

record chat_args =
  arg_first :: pyval
  arg_model :: pyval
  arg_system_prompt :: pyval
  arg_max_tokens :: pyval
  arg_temperature :: pyval
  arg_kwargs :: pydict

definition param_names :: "string \<Rightarrow> string list" where
  "param_names first =
     [''self'', first, ''model'', ''system_prompt'', ''max_tokens'', ''temperature'']"

definition default_model :: pyval where
  "default_model = PStr ''claude-3-5-sonnet-20241022''"

definition default_temperature :: pyval where
  "default_temperature = PFloat 0x3FF0000000000000"

definition bind_chat_args :: "string \<Rightarrow> pyval list \<Rightarrow> pydict \<Rightarrow> exc + chat_args" where
  "bind_chat_args first args kw =
     (if \<not> distinct (map fst kw) \<or> 5 < length args \<or> map_of kw ''self'' \<noteq> None
      then Inl TypeError
      else
        (case arg_value first 0 None args kw of
           Inl e \<Rightarrow> Inl e
         | Inr a0 \<Rightarrow>
        (case arg_value ''model'' 1 (Some default_model) args kw of
           Inl e \<Rightarrow> Inl e
         | Inr a1 \<Rightarrow>
        (case arg_value ''system_prompt'' 2 (Some PNone) args kw of
           Inl e \<Rightarrow> Inl e
         | Inr a2 \<Rightarrow>
        (case arg_value ''max_tokens'' 3 (Some (PInt 1024)) args kw of
           Inl e \<Rightarrow> Inl e
         | Inr a3 \<Rightarrow>
        (case arg_value ''temperature'' 4 (Some default_temperature) args kw of
           Inl e \<Rightarrow> Inl e
         | Inr a4 \<Rightarrow>
             Inr \<lparr> arg_first = a0, arg_model = a1, arg_system_prompt = a2,
                   arg_max_tokens = a3, arg_temperature = a4,
                   arg_kwargs = filter (\<lambda>p. fst p \<notin> set (param_names first)) kw \<rparr>))))))"

text \<open>\<^verbatim>\<open>response.content[0].text\<close>, lines 66 and 144.\<close>

definition first_text :: "response \<Rightarrow> exc + string" where
  "first_text r = (case content r of [] \<Rightarrow> Inl IndexError | b # bs \<Rightarrow> Inr (block_text b))"

text \<open>
  \<^verbatim>\<open>ClaudeClient.chat\<close>. Lines 52 to 63 build the request map: the four named entries,
  then the extras stored over them, then \<^verbatim>\<open>system\<close> when the system prompt is true.
\<close>

definition chat_params :: "chat_args \<Rightarrow> pydict" where
  "chat_params a =
     (let messages = PList [PDict [(''role'', PStr ''user''), (''content'', arg_first a)]];
          params = dict_merge
                     [(''model'', arg_model a),
                      (''messages'', messages),
                      (''max_tokens'', arg_max_tokens a),
                      (''temperature'', arg_temperature a)]
                     (arg_kwargs a)
      in if truthy (arg_system_prompt a)
         then dict_set params ''system'' (arg_system_prompt a)
         else params)"

text \<open>
  Lines 65 and 66, and again lines 143 and 144:
  \<^verbatim>\<open>response = self.client.messages.create(**params)\<close>, then
  \<^verbatim>\<open>return response.content[0].text\<close>. There is one call and no handler around it, so an
  exception of the transport leaves the method as it is. Every method is given the
  facade and the world and returns both.
\<close>

definition create_first_text ::
  "'ts transport \<Rightarrow> claude_client \<Rightarrow> pydict \<Rightarrow> 'ts world
     \<Rightarrow> (exc + string) \<times> claude_client \<times> 'ts world" where
  "create_first_text tr self params w =
     (case messages_create tr (client self) params (tstate w) of
        (Inl e, ts) \<Rightarrow> (Inl e, self, w\<lparr> tstate := ts \<rparr>)
      | (Inr response, ts) \<Rightarrow> (first_text response, self, w\<lparr> tstate := ts \<rparr>))"

definition chat ::
  "'ts transport \<Rightarrow> claude_client \<Rightarrow> pyval list \<Rightarrow> pydict \<Rightarrow> 'ts world
     \<Rightarrow> (exc + string) \<times> claude_client \<times> 'ts world" where
  "chat tr self args kw w =
     (case bind_chat_args ''message'' args kw of
        Inl e \<Rightarrow> (Inl e, self, w)
      | Inr a \<Rightarrow> create_first_text tr self (chat_params a) w)"

text \<open>\<^verbatim>\<open>ClaudeClient.chat_with_history\<close>, lines 132 to 144: the caller's \<^verbatim>\<open>messages\<close>
  go into the request map as they are.\<close>

definition chat_with_history_params :: "chat_args \<Rightarrow> pydict" where
  "chat_with_history_params a =
     (let params = dict_merge
                     [(''model'', arg_model a),
                      (''messages'', arg_first a),
                      (''max_tokens'', arg_max_tokens a),
                      (''temperature'', arg_temperature a)]
                     (arg_kwargs a)
      in if truthy (arg_system_prompt a)
         then dict_set params ''system'' (arg_system_prompt a)
         else params)"

definition chat_with_history ::
  "'ts transport \<Rightarrow> claude_client \<Rightarrow> pyval list \<Rightarrow> pydict \<Rightarrow> 'ts world
     \<Rightarrow> (exc + string) \<times> claude_client \<times> 'ts world" where
  "chat_with_history tr self args kw w =
     (case bind_chat_args ''messages'' args kw of
        Inl e \<Rightarrow> (Inl e, self, w)
      | Inr a \<Rightarrow> create_first_text tr self (chat_with_history_params a) w)"

text \<open>
  \<^verbatim>\<open>ClaudeClient.chat_stream\<close> is a generator function. Calling it binds the arguments
  and returns a generator; no line of the body runs before the first \<^verbatim>\<open>next\<close>. Lines 91
  to 103 build the request map, with the entry \<^verbatim>\<open>"stream": True\<close>.
\<close>

definition chat_stream_params :: "chat_args \<Rightarrow> pydict" where
  "chat_stream_params a =
     (let messages = PList [PDict [(''role'', PStr ''user''), (''content'', arg_first a)]];
          params = dict_merge
                     [(''model'', arg_model a),
                      (''messages'', messages),
                      (''max_tokens'', arg_max_tokens a),
                      (''temperature'', arg_temperature a),
                      (''stream'', PBool True)]
                     (arg_kwargs a)
      in if truthy (arg_system_prompt a)
         then dict_set params ''system'' (arg_system_prompt a)
         else params)"

text \<open>
  The states of the generator: created (the body has not started), suspended at the
  \<^verbatim>\<open>yield\<close> of line 107 inside the \<^verbatim>\<open>with\<close> block (the stream is open; what the stream
  will still deliver is kept in the state), and closed (the body has returned or raised).
\<close>

datatype generator =
    GenCreated chat_args
  | GenSuspended "string list" "exc option"
  | GenClosed

definition chat_stream ::
  "claude_client \<Rightarrow> pyval list \<Rightarrow> pydict \<Rightarrow> 'ts world
     \<Rightarrow> (exc + generator) \<times> claude_client \<times> 'ts world" where
  "chat_stream self args kw w =
     (case bind_chat_args ''message'' args kw of
        Inl e \<Rightarrow> (Inl e, self, w)
      | Inr a \<Rightarrow> (Inr (GenCreated a), self, w))"

text \<open>
  Lines 106 and 107, the loop over \<^verbatim>\<open>stream.text_stream\<close> from where it stands: the next
  fragment is yielded; at the end of the stream, or when the stream raises, control
  leaves the \<^verbatim>\<open>with\<close> block, \<^verbatim>\<open>__exit__\<close> runs, and the generator returns or re-raises.
\<close>

definition stream_loop ::
  "'ts transport \<Rightarrow> string list \<Rightarrow> exc option \<Rightarrow> claude_client \<Rightarrow> 'ts world
     \<Rightarrow> (exc + string option) \<times> generator \<times> claude_client \<times> 'ts world" where
  "stream_loop tr fs r self w =
     (case fs of
        t # fs' \<Rightarrow> (Inr (Some t), GenSuspended fs' r, self, w)
      | [] \<Rightarrow>
          (let w' = w\<lparr> tstate := stream_exit tr (tstate w) \<rparr>
           in case r of
                None \<Rightarrow> (Inr None, GenClosed, self, w')
              | Some e \<Rightarrow> (Inl e, GenClosed, self, w')))"

text \<open>
  \<^verbatim>\<open>next(gen)\<close>: \<open>Inr (Some t)\<close> is a yielded fragment, \<open>Inr None\<close> is \<^verbatim>\<open>StopIteration\<close>,
  \<open>Inl e\<close> an exception. From the created state the body runs from line 91: the request
  map, then line 105, where an exception of \<^verbatim>\<open>stream(...)\<close> or \<^verbatim>\<open>__enter__\<close> ends the
  generator with nothing acquired.
\<close>

definition gen_next ::
  "'ts transport \<Rightarrow> generator \<Rightarrow> claude_client \<Rightarrow> 'ts world
     \<Rightarrow> (exc + string option) \<times> generator \<times> claude_client \<times> 'ts world" where
  "gen_next tr g self w =
     (case g of
        GenCreated a \<Rightarrow>
          (case messages_stream tr (client self) (chat_stream_params a) (tstate w) of
             (Inl e, ts) \<Rightarrow> (Inl e, GenClosed, self, w\<lparr> tstate := ts \<rparr>)
           | (Inr (fs, r), ts) \<Rightarrow> stream_loop tr fs r self (w\<lparr> tstate := ts \<rparr>))
      | GenSuspended fs r \<Rightarrow> stream_loop tr fs r self w
      | GenClosed \<Rightarrow> (Inr None, GenClosed, self, w))"

text \<open>
  \<^verbatim>\<open>gen.close()\<close>, which the caller may call and which the interpreter calls when a
  generator that is no longer referenced is finalised: \<^verbatim>\<open>GeneratorExit\<close> is raised at the
  \<^verbatim>\<open>yield\<close> where the generator is suspended, so the \<^verbatim>\<open>with\<close> block is left through
  \<^verbatim>\<open>__exit__\<close>. A generator that never started, or has ended, has nothing to leave.
\<close>

definition gen_close ::
  "'ts transport \<Rightarrow> generator \<Rightarrow> claude_client \<Rightarrow> 'ts world
     \<Rightarrow> generator \<times> claude_client \<times> 'ts world" where
  "gen_close tr g self w =
     (case g of
        GenCreated a \<Rightarrow> (GenClosed, self, w)
      | GenSuspended fs r \<Rightarrow> (GenClosed, self, w\<lparr> tstate := stream_exit tr (tstate w) \<rparr>)
      | GenClosed \<Rightarrow> (GenClosed, self, w))"

text \<open>How far a generator is from its end: a created one is before every suspended
  one, a suspended one has the rest of its stream to deliver.\<close>

definition gen_rank :: "generator \<Rightarrow> nat \<times> nat" where
  "gen_rank g =
     (case g of
        GenCreated a \<Rightarrow> (2, 0)
      | GenSuspended fs r \<Rightarrow> (1, length fs)
      | GenClosed \<Rightarrow> (0, 0))"

text \<open>
  The callers of the generator. \<^verbatim>\<open>for text in gen: ...\<close> (as in line 181 of
  \<^verbatim>\<open>claude_client.py\<close> and line 46 of \<^verbatim>\<open>example_usage.py\<close>) calls \<^verbatim>\<open>next\<close> until the
  generator stops or raises; the result is the list of fragments received and the
  exception, if any.
\<close>

function for_each ::
  "'ts transport \<Rightarrow> generator \<Rightarrow> claude_client \<Rightarrow> 'ts world
     \<Rightarrow> (string list \<times> exc option) \<times> generator \<times> claude_client \<times> 'ts world" where
  "for_each tr g self w =
     (case gen_next tr g self w of
        (Inl e, g', self', w') \<Rightarrow> (([], Some e), g', self', w')
      | (Inr None, g', self', w') \<Rightarrow> (([], None), g', self', w')
      | (Inr (Some t), g', self', w') \<Rightarrow>
          (case for_each tr g' self' w' of
             ((ts, r), rest) \<Rightarrow> ((t # ts, r), rest)))"
  by pat_completeness auto
termination
  by (relation "inv_image (less_than <*lex*> less_than) (\<lambda>(tr, g, self, w). gen_rank g)")
     (auto simp: gen_next_def stream_loop_def gen_rank_def Let_def
        split: generator.splits prod.splits sum.splits list.splits option.splits)

declare for_each.simps [simp del]

text \<open>
  A caller that stops early: a loop that takes at most \<open>n\<close> fragments and breaks,
  after which the generator is closed.
\<close>

fun take_items ::
  "nat \<Rightarrow> 'ts transport \<Rightarrow> generator \<Rightarrow> claude_client \<Rightarrow> 'ts world
     \<Rightarrow> (string list \<times> exc option) \<times> generator \<times> claude_client \<times> 'ts world" where
  "take_items 0 tr g self w = (([], None), g, self, w)"
| "take_items (Suc n) tr g self w =
     (case gen_next tr g self w of
        (Inl e, g', self', w') \<Rightarrow> (([], Some e), g', self', w')
      | (Inr None, g', self', w') \<Rightarrow> (([], None), g', self', w')
      | (Inr (Some t), g', self', w') \<Rightarrow>
          (case take_items n tr g' self' w' of
             ((ts, r), rest) \<Rightarrow> ((t # ts, r), rest)))"

definition abandon_after ::
  "nat \<Rightarrow> 'ts transport \<Rightarrow> generator \<Rightarrow> claude_client \<Rightarrow> 'ts world
     \<Rightarrow> (string list \<times> exc option) \<times> generator \<times> claude_client \<times> 'ts world" where
  "abandon_after n tr g self w =
     (case take_items n tr g self w of
        (got, g', self', w') \<Rightarrow> (got, gen_close tr g' self' w'))"

text \<open>\<^verbatim>\<open>ClaudeClient.get_available_models(self)\<close>, lines 153 to 159.\<close>

definition get_available_models ::
  "claude_client \<Rightarrow> 'ts world \<Rightarrow> string list \<times> claude_client \<times> 'ts world" where
  "get_available_models self w =
     ([''claude-3-5-sonnet-20241022'',
       ''claude-3-5-haiku-20241022'',
       ''claude-3-opus-20240229'',
       ''claude-3-sonnet-20240229'',
       ''claude-3-haiku-20240307''],
      self, w)"

section \<open>Fixtures\<close>

text \<open>
  The stub transports of the testable properties of the specification, built on the
  recording stub: one answers every request with a response whose text is \<^verbatim>\<open>pong\<close> and
  streams the fragments \<^verbatim>\<open>a\<close>, \<^verbatim>\<open>b\<close>, \<^verbatim>\<open>c\<close>; the other raises on every request, in
  the streaming case after two fragments. With them a facade and a world to start from.
\<close>

definition pong_stub :: "(call list) transport" where
  "pong_stub =
     recording_stub (\<lambda>params. Inr (Response [ContentBlock ''pong'']))
                    (\<lambda>params. Inr ([''a'', ''b'', ''c''], None))"

definition failing_stub :: "(call list) transport" where
  "failing_stub =
     recording_stub (\<lambda>params. Inl (VendorError ''RateLimitError''))
                    (\<lambda>params. Inr ([''a'', ''b''], Some (VendorError ''APIConnectionError'')))"

definition test_client :: claude_client where
  "test_client = \<lparr> api_key = PStr ''sk-test'', client = Anthropic (PStr ''sk-test'') \<rparr>"

definition fresh_world :: "(string \<times> string) list \<Rightarrow> (call list) world" where
  "fresh_world env = \<lparr> environ = env, tstate = [] \<rparr>"

section \<open>Auxiliary facts\<close>

subsection \<open>Dicts\<close>

lemma map_of_dict_set: "map_of (dict_set d k v) = (map_of d)(k \<mapsto> v)"
  by (induction d) (auto simp: fun_eq_iff)

lemma map_of_dict_merge:
  "distinct (map fst kws) \<Longrightarrow> map_of (dict_merge d kws) = map_of d ++ map_of kws"
  unfolding dict_merge_def
proof (induction kws arbitrary: d)
  case Nil
  then show ?case by simp
next
  case (Cons p kws)
  obtain k v where p: "p = (k, v)" by (cases p)
  from Cons.prems p have k: "map_of kws k = None" and d: "distinct (map fst kws)"
    by (auto simp: map_of_eq_None_iff)
  show ?case using Cons.IH [OF d] k
    by (auto simp: p map_of_dict_set fun_eq_iff map_add_def split: option.splits)
qed

subsection \<open>Argument binding\<close>

lemma bind_chat_args_InrD:
  assumes "bind_chat_args first args kw = Inr a"
  shows "distinct (map fst kw)"
    and "length args \<le> 5"
    and "arg_kwargs a = filter (\<lambda>p. fst p \<notin> set (param_names first)) kw"
    and "arg_value first 0 None args kw = Inr (arg_first a)"
    and "arg_value ''model'' 1 (Some default_model) args kw = Inr (arg_model a)"
    and "arg_value ''system_prompt'' 2 (Some PNone) args kw = Inr (arg_system_prompt a)"
    and "arg_value ''max_tokens'' 3 (Some (PInt 1024)) args kw = Inr (arg_max_tokens a)"
    and "arg_value ''temperature'' 4 (Some default_temperature) args kw = Inr (arg_temperature a)"
  using assms
  by (auto simp: bind_chat_args_def split: if_splits sum.splits)

lemma kwargs_distinct:
  "bind_chat_args first args kw = Inr a \<Longrightarrow> distinct (map fst (arg_kwargs a))"
  by (simp add: bind_chat_args_InrD(1,3) distinct_map_filter)

lemma map_of_filter_keys:
  "map_of (filter (\<lambda>p. fst p \<notin> S) kw) k = (if k \<in> S then None else map_of kw k)"
  by (induction kw) auto

lemma kwargs_lookup:
  "bind_chat_args first args kw = Inr a \<Longrightarrow>
     map_of (arg_kwargs a) k = (if k \<in> set (param_names first) then None else map_of kw k)"
  by (simp only: bind_chat_args_InrD(3) map_of_filter_keys)

lemma arg_value_keyword:
  "arg_value name i dflt args kw = Inr x \<Longrightarrow> map_of kw name = Some v \<Longrightarrow> x = v"
  by (auto simp: arg_value_def split: if_splits option.splits)

lemma arg_value_both:
  "i < length args \<Longrightarrow> map_of kw name = Some v \<Longrightarrow> arg_value name i dflt args kw = Inl TypeError"
  by (simp add: arg_value_def)

lemma bind_chat_args_error:
  "bind_chat_args first args kw = Inl e \<Longrightarrow> e = TypeError"
  by (auto simp: bind_chat_args_def arg_value_def split: if_splits sum.splits option.splits)

subsection \<open>The generator and its callers\<close>

lemma for_each_suspended:
  "for_each tr (GenSuspended fs r) self w =
     ((fs, r), GenClosed, self, w\<lparr> tstate := stream_exit tr (tstate w) \<rparr>)"
proof (induction fs)
  case Nil
  show ?case
    by (subst for_each.simps) (simp add: gen_next_def stream_loop_def Let_def split: option.splits)
next
  case (Cons t fs)
  show ?case
    by (subst for_each.simps) (simp add: gen_next_def stream_loop_def Cons.IH)
qed

lemma for_each_created:
  "for_each tr (GenCreated a) self w =
     (case messages_stream tr (client self) (chat_stream_params a) (tstate w) of
        (Inl e, ts) \<Rightarrow> (([], Some e), GenClosed, self, w\<lparr> tstate := ts \<rparr>)
      | (Inr (fs, r), ts) \<Rightarrow> ((fs, r), GenClosed, self, w\<lparr> tstate := stream_exit tr ts \<rparr>))"
proof (cases "messages_stream tr (client self) (chat_stream_params a) (tstate w)")
  case (Pair res ts)
  show ?thesis
  proof (cases res)
    case (Inl e)
    with Pair show ?thesis
      by (subst for_each.simps) (simp add: gen_next_def)
  next
    case (Inr sc)
    obtain fs r where sc: "sc = (fs, r)" by (cases sc)
    show ?thesis
    proof (cases fs)
      case Nil
      with Pair Inr sc show ?thesis
        by (subst for_each.simps)
           (simp add: gen_next_def stream_loop_def Let_def split: option.splits)
    next
      case (Cons t fs')
      with Pair Inr sc show ?thesis
        by (subst for_each.simps)
           (simp add: gen_next_def stream_loop_def for_each_suspended)
    qed
  qed
qed

lemma take_items_suspended:
  "n \<le> length fs \<Longrightarrow>
     take_items n tr (GenSuspended fs r) self w =
       ((take n fs, None), GenSuspended (drop n fs) r, self, w)"
proof (induction n arbitrary: fs)
  case 0
  show ?case by simp
next
  case (Suc n)
  then obtain t fs' where fs: "fs = t # fs'" by (cases fs) auto
  with Suc.prems have "n \<le> length fs'" by simp
  from Suc.IH [OF this] show ?case
    by (simp add: fs gen_next_def stream_loop_def)
qed

lemma take_items_created:
  assumes "messages_stream tr (client self) (chat_stream_params a) (tstate w) = (Inr (fs, r), ts)"
    and "0 < n" and "n \<le> length fs"
  shows "take_items n tr (GenCreated a) self w =
           ((take n fs, None), GenSuspended (drop n fs) r, self, w\<lparr> tstate := ts \<rparr>)"
proof -
  from assms obtain m where n: "n = Suc m" by (cases n) auto
  from assms n obtain t fs' where fs: "fs = t # fs'" by (cases fs) auto
  with assms n have "m \<le> length fs'" by simp
  with assms(1) show ?thesis
    by (simp add: n fs gen_next_def stream_loop_def take_items_suspended)
qed

lemma take_items_beyond:
  "length fs < n \<Longrightarrow>
     take_items n tr (GenSuspended fs r) self w =
       ((fs, r), GenClosed, self, w\<lparr> tstate := stream_exit tr (tstate w) \<rparr>)"
proof (induction fs arbitrary: n)
  case Nil
  then obtain m where "n = Suc m" by (cases n) auto
  then show ?case
    by (simp add: gen_next_def stream_loop_def Let_def split: option.splits)
next
  case (Cons t fs)
  then obtain m where n: "n = Suc m" by (cases n) auto
  with Cons.prems have "length fs < m" by simp
  then show ?case
    by (simp add: n gen_next_def stream_loop_def Cons.IH)
qed

lemma take_items_created_beyond:
  assumes "messages_stream tr (client self) (chat_stream_params a) (tstate w) = (Inr (fs, r), ts)"
    and "length fs < n"
  shows "take_items n tr (GenCreated a) self w =
           ((fs, r), GenClosed, self, w\<lparr> tstate := stream_exit tr ts \<rparr>)"
proof -
  from assms(2) obtain m where n: "n = Suc m" by (cases n) auto
  show ?thesis
  proof (cases fs)
    case Nil
    with assms(1) show ?thesis
      by (simp add: n gen_next_def stream_loop_def Let_def split: option.splits)
  next
    case (Cons t fs')
    with assms(2) n have "length fs' < m" by simp
    with assms(1) Cons show ?thesis
      by (simp add: n gen_next_def stream_loop_def take_items_beyond)
  qed
qed

subsection \<open>Request maps and replies\<close>

lemma chat_params_lookup:
  assumes "distinct (map fst (arg_kwargs a))"
  shows "dict_get (chat_params a) k =
     (if k = ''system'' \<and> truthy (arg_system_prompt a) then Some (arg_system_prompt a)
      else case map_of (arg_kwargs a) k of
             Some v \<Rightarrow> Some v
           | None \<Rightarrow>
               map_of [(''model'', arg_model a),
                       (''messages'', PList [PDict [(''role'', PStr ''user''), (''content'', arg_first a)]]),
                       (''max_tokens'', arg_max_tokens a),
                       (''temperature'', arg_temperature a)] k)"
  using assms
  by (simp add: chat_params_def dict_get_def Let_def map_of_dict_set map_of_dict_merge
        map_add_def split: option.splits)

lemma chat_stream_params_lookup:
  assumes "distinct (map fst (arg_kwargs a))"
  shows "dict_get (chat_stream_params a) k =
     (if k = ''system'' \<and> truthy (arg_system_prompt a) then Some (arg_system_prompt a)
      else case map_of (arg_kwargs a) k of
             Some v \<Rightarrow> Some v
           | None \<Rightarrow>
               map_of [(''model'', arg_model a),
                       (''messages'', PList [PDict [(''role'', PStr ''user''), (''content'', arg_first a)]]),
                       (''max_tokens'', arg_max_tokens a),
                       (''temperature'', arg_temperature a),
                       (''stream'', PBool True)] k)"
  using assms
  by (simp add: chat_stream_params_def dict_get_def Let_def map_of_dict_set map_of_dict_merge
        map_add_def split: option.splits)

lemma chat_with_history_params_lookup:
  assumes "distinct (map fst (arg_kwargs a))"
  shows "dict_get (chat_with_history_params a) k =
     (if k = ''system'' \<and> truthy (arg_system_prompt a) then Some (arg_system_prompt a)
      else case map_of (arg_kwargs a) k of
             Some v \<Rightarrow> Some v
           | None \<Rightarrow>
               map_of [(''model'', arg_model a),
                       (''messages'', arg_first a),
                       (''max_tokens'', arg_max_tokens a),
                       (''temperature'', arg_temperature a)] k)"
  using assms
  by (simp add: chat_with_history_params_def dict_get_def Let_def map_of_dict_set
        map_of_dict_merge map_add_def split: option.splits)

lemma arg_value_first:
  "arg_value name 0 None args kw = Inr x \<Longrightarrow>
     (case args of t # ts \<Rightarrow> Some t | [] \<Rightarrow> map_of kw name) = Some x"
  by (auto simp: arg_value_def split: if_splits option.splits list.splits)

lemma create_first_text_reply:
  "messages_create tr (client self) params (tstate w) = (Inr r, ts) \<Longrightarrow> content r = b # bs \<Longrightarrow>
     create_first_text tr self params w = (Inr (block_text b), self, w\<lparr> tstate := ts \<rparr>)"
  by (simp add: create_first_text_def first_text_def)

lemma create_first_text_error:
  "messages_create tr (client self) params (tstate w) = (Inl e, ts) \<Longrightarrow>
     create_first_text tr self params w = (Inl e, self, w\<lparr> tstate := ts \<rparr>)"
  by (simp add: create_first_text_def)

subsection \<open>Named parameters\<close>

lemma bind_chat_args_both:
  assumes "map_of kw name = Some v" and "i < length args"
    and "(name, i) \<in> {(first, 0), (''model'', 1), (''system_prompt'', 2),
                        (''max_tokens'', 3), (''temperature'', 4)}"
  shows "bind_chat_args first args kw = Inl TypeError"
proof (cases "bind_chat_args first args kw")
  case (Inl e)
  then show ?thesis by (simp add: bind_chat_args_error)
next
  case (Inr a)
  from assms(3) bind_chat_args_InrD(4-8) [OF Inr]
  obtain d x where "arg_value name i d args kw = Inr x" by auto
  with arg_value_both [OF assms(2,1)] show ?thesis by simp
qed

lemma param_names_mem:
  "''model'' \<in> set (param_names first)" "''max_tokens'' \<in> set (param_names first)"
  "''temperature'' \<in> set (param_names first)" "first \<in> set (param_names first)"
  by (simp_all add: param_names_def)

lemma named_entries:
  assumes "bind_chat_args first args kw = Inr b"
  shows "dict_get (chat_params b) ''model'' = Some (arg_model b)"
    and "dict_get (chat_params b) ''max_tokens'' = Some (arg_max_tokens b)"
    and "dict_get (chat_params b) ''temperature'' = Some (arg_temperature b)"
    and "dict_get (chat_stream_params b) ''model'' = Some (arg_model b)"
    and "dict_get (chat_stream_params b) ''max_tokens'' = Some (arg_max_tokens b)"
    and "dict_get (chat_stream_params b) ''temperature'' = Some (arg_temperature b)"
    and "dict_get (chat_with_history_params b) ''model'' = Some (arg_model b)"
    and "dict_get (chat_with_history_params b) ''max_tokens'' = Some (arg_max_tokens b)"
    and "dict_get (chat_with_history_params b) ''temperature'' = Some (arg_temperature b)"
  by (simp_all add: chat_params_lookup [OF kwargs_distinct [OF assms]]
        chat_stream_params_lookup [OF kwargs_distinct [OF assms]]
        chat_with_history_params_lookup [OF kwargs_distinct [OF assms]]
        kwargs_lookup [OF assms] param_names_mem)


lemma keyword_value:
  assumes "bind_chat_args first args kw = Inr b"
  shows "map_of kw ''model'' = Some v \<Longrightarrow> arg_model b = v"
    and "map_of kw ''max_tokens'' = Some v \<Longrightarrow> arg_max_tokens b = v"
    and "map_of kw ''temperature'' = Some v \<Longrightarrow> arg_temperature b = v"
    and "map_of kw ''system_prompt'' = Some v \<Longrightarrow> arg_system_prompt b = v"
  using bind_chat_args_InrD(5-8) [OF assms] by (blast dest: arg_value_keyword)+

lemma system_entry:
  assumes "bind_chat_args first args kw = Inr b" and "first \<noteq> ''system''"
  shows "dict_get (chat_params b) ''system'' =
           (if truthy (arg_system_prompt b) then Some (arg_system_prompt b)
            else map_of kw ''system'')"
    and "dict_get (chat_stream_params b) ''system'' =
           (if truthy (arg_system_prompt b) then Some (arg_system_prompt b)
            else map_of kw ''system'')"
    and "dict_get (chat_with_history_params b) ''system'' =
           (if truthy (arg_system_prompt b) then Some (arg_system_prompt b)
            else map_of kw ''system'')"
proof -
  have kw: "map_of (arg_kwargs b) ''system'' = map_of kw ''system''"
    using assms(2) by (simp add: kwargs_lookup [OF assms(1)] param_names_def)
  note d = kwargs_distinct [OF assms(1)]
  show "dict_get (chat_params b) ''system'' =
           (if truthy (arg_system_prompt b) then Some (arg_system_prompt b)
            else map_of kw ''system'')"
    by (simp add: chat_params_lookup [OF d] kw split: option.splits)
  show "dict_get (chat_stream_params b) ''system'' =
           (if truthy (arg_system_prompt b) then Some (arg_system_prompt b)
            else map_of kw ''system'')"
    by (simp add: chat_stream_params_lookup [OF d] kw split: option.splits)
  show "dict_get (chat_with_history_params b) ''system'' =
           (if truthy (arg_system_prompt b) then Some (arg_system_prompt b)
            else map_of kw ''system'')"
    by (simp add: chat_with_history_params_lookup [OF d] kw split: option.splits)
qed

lemma system_prompt_omitted:
  assumes "bind_chat_args first args kw = Inr b"
    and "length args \<le> 2" and "map_of kw ''system_prompt'' = None"
  shows "arg_system_prompt b = PNone"
  using bind_chat_args_InrD(6) [OF assms(1)] assms(2,3)
  by (simp add: arg_value_def)

section \<open>Construction\<close>

text \<open>
  Claim C4. Constructing the facade with no credential argument, when the environment
  variable \<^verbatim>\<open>ANTHROPIC_API_KEY\<close> is unset or set to the empty string, raises the
  configuration error (\<^verbatim>\<open>ValueError\<close>), for every transport; the world is returned as it
  was, so the environment is not changed, the transport is not called and no handle is
  made.
\<close>

theorem init_missing_credential:
  assumes "map_of (environ w) ''ANTHROPIC_API_KEY'' = None
           \<or> map_of (environ w) ''ANTHROPIC_API_KEY'' = Some []"
  shows "ClaudeClient_init tr PNone w =
           (Inl (ValueError
              ''API key required. Set ANTHROPIC_API_KEY environment variable or pass api_key parameter.''),
            w)"
  using assms by (auto simp: ClaudeClient_init_def os_getenv_def)

theorem init_missing_credential_witness:
  "ClaudeClient_init pong_stub PNone
      (fresh_world [(''PATH'', ''/bin''), (''ANTHROPIC_API_KEY'', [])]) =
     (Inl (ValueError
        ''API key required. Set ANTHROPIC_API_KEY environment variable or pass api_key parameter.''),
      fresh_world [(''PATH'', ''/bin''), (''ANTHROPIC_API_KEY'', [])])"
  using init_missing_credential
    [of "fresh_world [(''PATH'', ''/bin''), (''ANTHROPIC_API_KEY'', [])]" pong_stub]
  by (simp add: fresh_world_def)

text \<open>
  Claim C3, as amended. For every non-empty explicit credential string \<open>s\<close>, every
  transport and every world, construction succeeds, the credential stored is \<open>s\<close>, the
  handle is made from \<open>s\<close>, and the only effect is the making of the handle; the outcome
  and the transport's state are the same whatever the environment holds.
\<close>

theorem init_explicit_credential:
  assumes "s \<noteq> []"
  shows "ClaudeClient_init tr (PStr s) w =
           (Inr \<lparr> api_key = PStr s, client = Anthropic (PStr s) \<rparr>,
            w\<lparr> tstate := client_new tr (PStr s) (tstate w) \<rparr>)
       \<and> fst (ClaudeClient_init tr (PStr s) (w\<lparr> environ := env' \<rparr>))
           = fst (ClaudeClient_init tr (PStr s) w)
       \<and> tstate (snd (ClaudeClient_init tr (PStr s) (w\<lparr> environ := env' \<rparr>)))
           = tstate (snd (ClaudeClient_init tr (PStr s) w))"
  using assms by (simp add: ClaudeClient_init_def Let_def)

theorem init_explicit_credential_witness:
  "ClaudeClient_init pong_stub (PStr ''sk-arg'') (fresh_world [(''ANTHROPIC_API_KEY'', ''sk-env'')]) =
     (Inr \<lparr> api_key = PStr ''sk-arg'', client = Anthropic (PStr ''sk-arg'') \<rparr>,
      \<lparr> environ = [(''ANTHROPIC_API_KEY'', ''sk-env'')], tstate = [NewClient (PStr ''sk-arg'')] \<rparr>)"
  using init_explicit_credential
    [of "''sk-arg''" pong_stub "fresh_world [(''ANTHROPIC_API_KEY'', ''sk-env'')]"]
  by (simp add: fresh_world_def pong_stub_def recording_stub_def)

text \<open>
  Claim C3 as written covers every explicit string, also the empty one. The empty
  string is false, so line 21 falls through to \<^verbatim>\<open>os.getenv\<close>: with the variable set, the
  credential stored is the variable's value and not the argument; with the variable
  unset, the same call raises.
\<close>

theorem init_empty_credential_counterexample:
  "ClaudeClient_init pong_stub (PStr []) (fresh_world [(''ANTHROPIC_API_KEY'', ''sk-env'')]) =
     (Inr \<lparr> api_key = PStr ''sk-env'', client = Anthropic (PStr ''sk-env'') \<rparr>,
      \<lparr> environ = [(''ANTHROPIC_API_KEY'', ''sk-env'')], tstate = [NewClient (PStr ''sk-env'')] \<rparr>)
   \<and> ClaudeClient_init pong_stub (PStr []) (fresh_world []) =
     (Inl (ValueError
        ''API key required. Set ANTHROPIC_API_KEY environment variable or pass api_key parameter.''),
      fresh_world [])"
  by (simp add: ClaudeClient_init_def Let_def os_getenv_def fresh_world_def pong_stub_def
        recording_stub_def)

section \<open>Single-turn chat\<close>

text \<open>
  Claim C2, as amended. For every call of \<^verbatim>\<open>chat\<close> that Python accepts, the text is the
  first positional argument (or the keyword \<^verbatim>\<open>message\<close>), the method is one synchronous
  call of the transport with the request map of lines 52 to 63, and whenever the
  transport answers with a response that has a first content block, the method returns
  that block's text (\<^verbatim>\<open>pong\<close> for a stub that answers \<^verbatim>\<open>pong\<close>). The messages field of
  the request is the one-element conversation (role \<^verbatim>\<open>user\<close>, content the text) when the
  extra options have no key \<^verbatim>\<open>messages\<close>.
\<close>

theorem chat_single_turn:
  assumes "bind_chat_args ''message'' args kw = Inr a"
  shows "(case args of t # ts \<Rightarrow> Some t | [] \<Rightarrow> map_of kw ''message'') = Some (arg_first a)
       \<and> chat tr self args kw w = create_first_text tr self (chat_params a) w
       \<and> (map_of kw ''messages'' = None \<longrightarrow>
            dict_get (chat_params a) ''messages'' =
              Some (PList [PDict [(''role'', PStr ''user''), (''content'', arg_first a)]]))
       \<and> (\<forall>r ts b bs.
            messages_create tr (client self) (chat_params a) (tstate w) = (Inr r, ts)
              \<and> content r = b # bs
            \<longrightarrow> chat tr self args kw w = (Inr (block_text b), self, w\<lparr> tstate := ts \<rparr>))"
proof -
  have first: "(case args of t # ts \<Rightarrow> Some t | [] \<Rightarrow> map_of kw ''message'') = Some (arg_first a)"
    using bind_chat_args_InrD(4) [OF assms] by (rule arg_value_first)
  have run: "chat tr self args kw w = create_first_text tr self (chat_params a) w"
    using assms by (simp add: chat_def)
  have msgs: "dict_get (chat_params a) ''messages'' =
      Some (PList [PDict [(''role'', PStr ''user''), (''content'', arg_first a)]])"
    if "map_of kw ''messages'' = None"
    using that
    by (simp add: chat_params_lookup [OF kwargs_distinct [OF assms]] kwargs_lookup [OF assms])
  have ret: "chat tr self args kw w = (Inr (block_text b), self, w\<lparr> tstate := ts \<rparr>)"
    if "messages_create tr (client self) (chat_params a) (tstate w) = (Inr r, ts)"
      and "content r = b # bs" for r ts b bs
    using that by (simp add: run create_first_text_reply)
  from first run msgs ret show ?thesis by blast
qed

theorem chat_single_turn_witness:
  "chat pong_stub test_client [PStr ''ping''] [] (fresh_world []) =
     (Inr ''pong'', test_client,
      \<lparr> environ = [],
        tstate = [Create (Anthropic (PStr ''sk-test''))
                    [(''model'', PStr ''claude-3-5-sonnet-20241022''),
                     (''messages'', PList [PDict [(''role'', PStr ''user''), (''content'', PStr ''ping'')]]),
                     (''max_tokens'', PInt 1024),
                     (''temperature'', PFloat 0x3FF0000000000000)]] \<rparr>)"
  using chat_single_turn
    [of "[PStr ''ping'']" "[]"
        "\<lparr> arg_first = PStr ''ping'', arg_model = default_model, arg_system_prompt = PNone,
           arg_max_tokens = PInt 1024, arg_temperature = default_temperature, arg_kwargs = [] \<rparr>"
        pong_stub test_client "fresh_world []"]
  by (simp add: bind_chat_args_def arg_value_def param_names_def create_first_text_def
        first_text_def chat_params_def dict_merge_def pong_stub_def recording_stub_def
        test_client_def fresh_world_def default_model_def default_temperature_def)

text \<open>
  Claim C2 as written says that single-turn chat sends the one-element conversation, for
  every call. With the extra option \<^verbatim>\<open>messages=[]\<close> the request that reaches the transport
  has the empty list as its messages field: the extras are stored over the named entries.
\<close>

theorem chat_messages_override_counterexample:
  "chat pong_stub test_client [PStr ''ping''] [(''messages'', PList [])] (fresh_world []) =
     (Inr ''pong'', test_client,
      \<lparr> environ = [],
        tstate = [Create (Anthropic (PStr ''sk-test''))
                    [(''model'', PStr ''claude-3-5-sonnet-20241022''),
                     (''messages'', PList []),
                     (''max_tokens'', PInt 1024),
                     (''temperature'', PFloat 0x3FF0000000000000)]] \<rparr>)"
  by (simp add: chat_def bind_chat_args_def arg_value_def param_names_def create_first_text_def
        first_text_def chat_params_def dict_merge_def pong_stub_def recording_stub_def
        test_client_def fresh_world_def default_model_def default_temperature_def)


section \<open>Extra options and named parameters\<close>

text \<open>
  Claim C1, as amended. In a call of \<^verbatim>\<open>chat\<close>, \<^verbatim>\<open>chat_stream\<close> or \<^verbatim>\<open>chat_with_history\<close>, a
  keyword option named \<^verbatim>\<open>model\<close>, \<^verbatim>\<open>max_tokens\<close> or \<^verbatim>\<open>temperature\<close> is the named parameter
  itself. When Python accepts the call, \<^verbatim>\<open>kwargs\<close> has no entry of that name, and the
  request map given to the transport carries the keyword's value for that key: it is the
  map \<^verbatim>\<open>chat\<close> and \<^verbatim>\<open>chat_with_history\<close> call \<^verbatim>\<open>messages.create\<close> with, and the map the
  generator of \<^verbatim>\<open>chat_stream\<close> calls \<^verbatim>\<open>messages.stream\<close> with at its first \<^verbatim>\<open>next\<close>. When the
  same parameter is also given by position, the call is rejected with \<^verbatim>\<open>TypeError\<close>
  before the body runs: facade and world are unchanged and the transport is not called.
\<close>

theorem keyword_binds_named_parameter:
  assumes "k \<in> {''model'', ''max_tokens'', ''temperature''}" and "map_of kw k = Some v"
  shows "(bind_chat_args ''message'' args kw = Inr a \<longrightarrow>
            map_of (arg_kwargs a) k = None
          \<and> chat tr self args kw w = create_first_text tr self (chat_params a) w
          \<and> dict_get (chat_params a) k = Some v
          \<and> chat_stream self args kw w = (Inr (GenCreated a), self, w)
          \<and> dict_get (chat_stream_params a) k = Some v
          \<and> gen_next tr (GenCreated a) self w =
              (case messages_stream tr (client self) (chat_stream_params a) (tstate w) of
                 (Inl e, ts) \<Rightarrow> (Inl e, GenClosed, self, w\<lparr> tstate := ts \<rparr>)
               | (Inr (fs, r), ts) \<Rightarrow> stream_loop tr fs r self (w\<lparr> tstate := ts \<rparr>))
          \<and> for_each tr (GenCreated a) self w =
              (case messages_stream tr (client self) (chat_stream_params a) (tstate w) of
                 (Inl e, ts) \<Rightarrow> (([], Some e), GenClosed, self, w\<lparr> tstate := ts \<rparr>)
               | (Inr (fs, r), ts) \<Rightarrow>
                   ((fs, r), GenClosed, self, w\<lparr> tstate := stream_exit tr ts \<rparr>)))
       \<and> (bind_chat_args ''messages'' args kw = Inr a' \<longrightarrow>
            map_of (arg_kwargs a') k = None
          \<and> chat_with_history tr self args kw w =
              create_first_text tr self (chat_with_history_params a') w
          \<and> dict_get (chat_with_history_params a') k = Some v)
       \<and> (k = ''model'' \<and> 1 < length args \<or> k = ''max_tokens'' \<and> 3 < length args
            \<or> k = ''temperature'' \<and> 4 < length args \<longrightarrow>
            chat tr self args kw w = (Inl TypeError, self, w)
          \<and> chat_stream self args kw w = (Inl TypeError, self, w)
          \<and> chat_with_history tr self args kw w = (Inl TypeError, self, w))"
proof -
  have extras: "map_of (arg_kwargs b) k = None"
    if "bind_chat_args first args kw = Inr b" for first b
    using assms(1) by (auto simp: kwargs_lookup [OF that] param_names_mem)
  have sent: "dict_get (chat_params b) k = Some v \<and> dict_get (chat_stream_params b) k = Some v
      \<and> dict_get (chat_with_history_params b) k = Some v"
    if b: "bind_chat_args first args kw = Inr b" for first b
  proof -
    from assms(1) consider "k = ''model''" | "k = ''max_tokens''" | "k = ''temperature''"
      by blast
    then show ?thesis
    proof cases
      case 1
      with assms(2) have "arg_model b = v" by (simp add: keyword_value(1) [OF b])
      with 1 show ?thesis by (simp only: named_entries(1,4,7) [OF b] simp_thms)
    next
      case 2
      with assms(2) have "arg_max_tokens b = v" by (simp add: keyword_value(2) [OF b])
      with 2 show ?thesis by (simp only: named_entries(2,5,8) [OF b] simp_thms)
    next
      case 3
      with assms(2) have "arg_temperature b = v" by (simp add: keyword_value(3) [OF b])
      with 3 show ?thesis by (simp only: named_entries(3,6,9) [OF b] simp_thms)
    qed
  qed
  have rejected: "bind_chat_args first args kw = Inl TypeError"
    if "k = ''model'' \<and> 1 < length args \<or> k = ''max_tokens'' \<and> 3 < length args
            \<or> k = ''temperature'' \<and> 4 < length args" for first
  proof -
    from that consider "k = ''model''" "1 < length args" | "k = ''max_tokens''" "3 < length args"
      | "k = ''temperature''" "4 < length args"
      by blast
    then show ?thesis
    proof cases
      case 1
      with assms(2) show ?thesis by (intro bind_chat_args_both [of kw k v 1]) simp_all
    next
      case 2
      with assms(2) show ?thesis by (intro bind_chat_args_both [of kw k v 3]) simp_all
    next
      case 3
      with assms(2) show ?thesis by (intro bind_chat_args_both [of kw k v 4]) simp_all
    qed
  qed
  have c0: "gen_next tr (GenCreated a) self w =
              (case messages_stream tr (client self) (chat_stream_params a) (tstate w) of
                 (Inl e, ts) \<Rightarrow> (Inl e, GenClosed, self, w\<lparr> tstate := ts \<rparr>)
               | (Inr (fs, r), ts) \<Rightarrow> stream_loop tr fs r self (w\<lparr> tstate := ts \<rparr>))
          \<and> for_each tr (GenCreated a) self w =
              (case messages_stream tr (client self) (chat_stream_params a) (tstate w) of
                 (Inl e, ts) \<Rightarrow> (([], Some e), GenClosed, self, w\<lparr> tstate := ts \<rparr>)
               | (Inr (fs, r), ts) \<Rightarrow>
                   ((fs, r), GenClosed, self, w\<lparr> tstate := stream_exit tr ts \<rparr>))"
    by (simp add: gen_next_def for_each_created)
  have c1: "bind_chat_args ''message'' args kw = Inr a \<Longrightarrow>
      chat tr self args kw w = create_first_text tr self (chat_params a) w
      \<and> chat_stream self args kw w = (Inr (GenCreated a), self, w)"
    by (simp add: chat_def chat_stream_def)
  have c2: "bind_chat_args ''messages'' args kw = Inr a' \<Longrightarrow>
      chat_with_history tr self args kw w =
        create_first_text tr self (chat_with_history_params a') w"
    by (simp add: chat_with_history_def)
  have c3: "chat tr self args kw w = (Inl TypeError, self, w)
          \<and> chat_stream self args kw w = (Inl TypeError, self, w)
          \<and> chat_with_history tr self args kw w = (Inl TypeError, self, w)"
    if "k = ''model'' \<and> 1 < length args \<or> k = ''max_tokens'' \<and> 3 < length args
            \<or> k = ''temperature'' \<and> 4 < length args"
    by (simp add: chat_def chat_stream_def chat_with_history_def rejected [OF that])
  from extras sent c0 c1 c2 c3 show ?thesis by blast
qed

theorem keyword_binds_named_parameter_witness:
  "chat pong_stub test_client [PStr ''What is 2+2?'']
      [(''model'', PStr ''claude-3-5-haiku-20241022'')] (fresh_world []) =
     (Inr ''pong'', test_client,
      \<lparr> environ = [],
        tstate = [Create (Anthropic (PStr ''sk-test''))
                    [(''model'', PStr ''claude-3-5-haiku-20241022''),
                     (''messages'',
                      PList [PDict [(''role'', PStr ''user''), (''content'', PStr ''What is 2+2?'')]]),
                     (''max_tokens'', PInt 1024),
                     (''temperature'', PFloat 0x3FF0000000000000)]] \<rparr>)
   \<and> dict_get (chat_stream_params
        \<lparr> arg_first = PStr ''What is 2+2?'', arg_model = PStr ''claude-3-5-haiku-20241022'',
           arg_system_prompt = PNone, arg_max_tokens = PInt 1024,
           arg_temperature = default_temperature, arg_kwargs = [] \<rparr>) ''model'' =
       Some (PStr ''claude-3-5-haiku-20241022'')
   \<and> for_each pong_stub
        (GenCreated
          \<lparr> arg_first = PStr ''What is 2+2?'', arg_model = PStr ''claude-3-5-haiku-20241022'',
             arg_system_prompt = PNone, arg_max_tokens = PInt 1024,
             arg_temperature = default_temperature, arg_kwargs = [] \<rparr>)
        test_client (fresh_world []) =
       (([''a'', ''b'', ''c''], None), GenClosed, test_client,
        \<lparr> environ = [],
          tstate = [StreamEnter (Anthropic (PStr ''sk-test''))
                      [(''model'', PStr ''claude-3-5-haiku-20241022''),
                       (''messages'',
                        PList [PDict [(''role'', PStr ''user''), (''content'', PStr ''What is 2+2?'')]]),
                       (''max_tokens'', PInt 1024),
                       (''temperature'', PFloat 0x3FF0000000000000),
                       (''stream'', PBool True)],
                    StreamExit] \<rparr>)"
  using keyword_binds_named_parameter
    [of "''model''" "[(''model'', PStr ''claude-3-5-haiku-20241022'')]"
        "PStr ''claude-3-5-haiku-20241022''" "[PStr ''What is 2+2?'']"
        "\<lparr> arg_first = PStr ''What is 2+2?'', arg_model = PStr ''claude-3-5-haiku-20241022'',
           arg_system_prompt = PNone, arg_max_tokens = PInt 1024,
           arg_temperature = default_temperature, arg_kwargs = [] \<rparr>"
        pong_stub test_client "fresh_world []"]
  by (simp add: bind_chat_args_def arg_value_def param_names_def create_first_text_def
        first_text_def chat_params_def chat_stream_params_def dict_merge_def pong_stub_def recording_stub_def
        test_client_def fresh_world_def default_model_def default_temperature_def)

text \<open>
  Claim C1 as written has the extras' value reach the transport in place of the value of
  the explicitly named parameter. A call that gives \<^verbatim>\<open>model\<close> both ways is rejected, and
  no request reaches the transport.
\<close>

theorem keyword_and_positional_counterexample:
  "chat pong_stub test_client [PStr ''hi'', PStr ''claude-3-opus-20240229'']
      [(''model'', PStr ''claude-3-5-haiku-20241022'')] (fresh_world []) =
     (Inl TypeError, test_client, fresh_world [])"
  by (simp add: chat_def bind_chat_args_def arg_value_def)

section \<open>The system instruction\<close>

text \<open>
  Claim C10. In \<^verbatim>\<open>chat\<close>, \<^verbatim>\<open>chat_stream\<close> and \<^verbatim>\<open>chat_with_history\<close>, for every call that
  Python accepts: an omitted system prompt is \<^verbatim>\<open>None\<close>; when the system prompt is \<^verbatim>\<open>None\<close>
  or the empty string, the method adds no \<^verbatim>\<open>system\<close> entry, so the request map has the
  entry of the extra options if they have one and none otherwise; when it is a non-empty
  string, the request map has that string under \<^verbatim>\<open>system\<close>, whatever the extra options
  hold, because lines 62 and 63 (102 and 103, 140 and 141) run after the extras are
  merged. The request map is the one given to the transport: by the single
  \<^verbatim>\<open>messages.create\<close> call of \<^verbatim>\<open>chat\<close> and \<^verbatim>\<open>chat_with_history\<close>, and by the
  \<^verbatim>\<open>messages.stream\<close> call the generator of \<^verbatim>\<open>chat_stream\<close> makes at its first \<^verbatim>\<open>next\<close>.
\<close>

theorem system_prompt_entry:
  assumes "bind_chat_args ''message'' args kw = Inr a \<or> bind_chat_args ''messages'' args kw = Inr a"
  shows "(length args \<le> 2 \<and> map_of kw ''system_prompt'' = None \<longrightarrow> arg_system_prompt a = PNone)
       \<and> (arg_system_prompt a = PNone \<or> arg_system_prompt a = PStr [] \<longrightarrow>
            dict_get (chat_params a) ''system'' = map_of kw ''system''
          \<and> dict_get (chat_stream_params a) ''system'' = map_of kw ''system''
          \<and> dict_get (chat_with_history_params a) ''system'' = map_of kw ''system'')
       \<and> (\<forall>s. arg_system_prompt a = PStr s \<and> s \<noteq> [] \<longrightarrow>
            dict_get (chat_params a) ''system'' = Some (PStr s)
          \<and> dict_get (chat_stream_params a) ''system'' = Some (PStr s)
          \<and> dict_get (chat_with_history_params a) ''system'' = Some (PStr s))
       \<and> (bind_chat_args ''message'' args kw = Inr a \<longrightarrow>
            chat tr self args kw w = create_first_text tr self (chat_params a) w
          \<and> chat_stream self args kw w = (Inr (GenCreated a), self, w)
          \<and> gen_next tr (GenCreated a) self w =
              (case messages_stream tr (client self) (chat_stream_params a) (tstate w) of
                 (Inl e, ts) \<Rightarrow> (Inl e, GenClosed, self, w\<lparr> tstate := ts \<rparr>)
               | (Inr (fs, r), ts) \<Rightarrow> stream_loop tr fs r self (w\<lparr> tstate := ts \<rparr>))
          \<and> for_each tr (GenCreated a) self w =
              (case messages_stream tr (client self) (chat_stream_params a) (tstate w) of
                 (Inl e, ts) \<Rightarrow> (([], Some e), GenClosed, self, w\<lparr> tstate := ts \<rparr>)
               | (Inr (fs, r), ts) \<Rightarrow>
                   ((fs, r), GenClosed, self, w\<lparr> tstate := stream_exit tr ts \<rparr>)))
       \<and> (bind_chat_args ''messages'' args kw = Inr a \<longrightarrow>
            chat_with_history tr self args kw w =
              create_first_text tr self (chat_with_history_params a) w)"
proof -
  from assms obtain first where b: "bind_chat_args first args kw = Inr a"
    and f: "first \<noteq> ''system''"
    by auto
  have omitted: "arg_system_prompt a = PNone"
    if "length args \<le> 2 \<and> map_of kw ''system_prompt'' = None"
    using that by (simp add: system_prompt_omitted [OF b])
  have false_prompt: "dict_get (chat_params a) ''system'' = map_of kw ''system''
          \<and> dict_get (chat_stream_params a) ''system'' = map_of kw ''system''
          \<and> dict_get (chat_with_history_params a) ''system'' = map_of kw ''system''"
    if "arg_system_prompt a = PNone \<or> arg_system_prompt a = PStr []"
    using that by (auto simp: system_entry [OF b f])
  have true_prompt: "dict_get (chat_params a) ''system'' = Some (PStr s)
          \<and> dict_get (chat_stream_params a) ''system'' = Some (PStr s)
          \<and> dict_get (chat_with_history_params a) ''system'' = Some (PStr s)"
    if "arg_system_prompt a = PStr s \<and> s \<noteq> []" for s
    using that by (simp add: system_entry [OF b f])
  have c0: "gen_next tr (GenCreated a) self w =
              (case messages_stream tr (client self) (chat_stream_params a) (tstate w) of
                 (Inl e, ts) \<Rightarrow> (Inl e, GenClosed, self, w\<lparr> tstate := ts \<rparr>)
               | (Inr (fs, r), ts) \<Rightarrow> stream_loop tr fs r self (w\<lparr> tstate := ts \<rparr>))
          \<and> for_each tr (GenCreated a) self w =
              (case messages_stream tr (client self) (chat_stream_params a) (tstate w) of
                 (Inl e, ts) \<Rightarrow> (([], Some e), GenClosed, self, w\<lparr> tstate := ts \<rparr>)
               | (Inr (fs, r), ts) \<Rightarrow>
                   ((fs, r), GenClosed, self, w\<lparr> tstate := stream_exit tr ts \<rparr>))"
    by (simp add: gen_next_def for_each_created)
  have c1: "bind_chat_args ''message'' args kw = Inr a \<Longrightarrow>
      chat tr self args kw w = create_first_text tr self (chat_params a) w
      \<and> chat_stream self args kw w = (Inr (GenCreated a), self, w)"
    by (simp add: chat_def chat_stream_def)
  have c2: "bind_chat_args ''messages'' args kw = Inr a \<Longrightarrow>
      chat_with_history tr self args kw w =
        create_first_text tr self (chat_with_history_params a) w"
    by (simp add: chat_with_history_def)
  from omitted false_prompt true_prompt c0 c1 c2 show ?thesis by blast
qed

theorem system_prompt_entry_witness:
  "chat pong_stub test_client [PStr ''What is the capital of France?'']
      [(''system'', PStr ''from the extras''), (''system_prompt'', PStr ''You are a helpful assistant.'')]
      (fresh_world []) =
     (Inr ''pong'', test_client,
      \<lparr> environ = [],
        tstate = [Create (Anthropic (PStr ''sk-test''))
                    [(''model'', PStr ''claude-3-5-sonnet-20241022''),
                     (''messages'',
                      PList [PDict [(''role'', PStr ''user''),
                                    (''content'', PStr ''What is the capital of France?'')]]),
                     (''max_tokens'', PInt 1024),
                     (''temperature'', PFloat 0x3FF0000000000000),
                     (''system'', PStr ''You are a helpful assistant.'')]] \<rparr>)
   \<and> for_each pong_stub
        (GenCreated
          \<lparr> arg_first = PStr ''What is the capital of France?'', arg_model = default_model,
             arg_system_prompt = PStr ''You are a helpful assistant.'', arg_max_tokens = PInt 1024,
             arg_temperature = default_temperature,
             arg_kwargs = [(''system'', PStr ''from the extras'')] \<rparr>)
        test_client (fresh_world []) =
       (([''a'', ''b'', ''c''], None), GenClosed, test_client,
        \<lparr> environ = [],
          tstate = [StreamEnter (Anthropic (PStr ''sk-test''))
                      [(''model'', PStr ''claude-3-5-sonnet-20241022''),
                       (''messages'',
                        PList [PDict [(''role'', PStr ''user''),
                                      (''content'', PStr ''What is the capital of France?'')]]),
                       (''max_tokens'', PInt 1024),
                       (''temperature'', PFloat 0x3FF0000000000000),
                       (''stream'', PBool True),
                       (''system'', PStr ''You are a helpful assistant.'')],
                    StreamExit] \<rparr>)"
  using system_prompt_entry
    [of "[PStr ''What is the capital of France?'']"
        "[(''system'', PStr ''from the extras''), (''system_prompt'', PStr ''You are a helpful assistant.'')]"
        "\<lparr> arg_first = PStr ''What is the capital of France?'', arg_model = default_model,
           arg_system_prompt = PStr ''You are a helpful assistant.'', arg_max_tokens = PInt 1024,
           arg_temperature = default_temperature,
           arg_kwargs = [(''system'', PStr ''from the extras'')] \<rparr>"
        pong_stub test_client "fresh_world []"]
  by (simp add: bind_chat_args_def arg_value_def param_names_def create_first_text_def
        first_text_def chat_params_def chat_stream_params_def dict_merge_def pong_stub_def recording_stub_def
        test_client_def fresh_world_def default_model_def default_temperature_def)

section \<open>Multi-turn chat\<close>

text \<open>
  Claim C5. For every call of \<^verbatim>\<open>chat_with_history\<close> that Python accepts, the turn sequence
  is the first positional argument (or the keyword \<^verbatim>\<open>messages\<close>); the method is one
  synchronous call of the transport, and the messages field of the request map is that
  value itself, whatever the extra options are: same turns, same order, nothing added.
  Whenever the transport answers with a response that has a first content block, the
  method returns that block's text, as \<^verbatim>\<open>chat\<close> does.
\<close>

theorem chat_with_history_passes_turns:
  assumes "bind_chat_args ''messages'' args kw = Inr a"
  shows "(case args of m # ms \<Rightarrow> Some m | [] \<Rightarrow> map_of kw ''messages'') = Some (arg_first a)
       \<and> chat_with_history tr self args kw w =
           create_first_text tr self (chat_with_history_params a) w
       \<and> dict_get (chat_with_history_params a) ''messages'' = Some (arg_first a)
       \<and> (\<forall>r ts b bs.
            messages_create tr (client self) (chat_with_history_params a) (tstate w) = (Inr r, ts)
              \<and> content r = b # bs
            \<longrightarrow> chat_with_history tr self args kw w =
                  (Inr (block_text b), self, w\<lparr> tstate := ts \<rparr>))"
proof -
  have first: "(case args of m # ms \<Rightarrow> Some m | [] \<Rightarrow> map_of kw ''messages'') = Some (arg_first a)"
    using bind_chat_args_InrD(4) [OF assms] by (rule arg_value_first)
  have run: "chat_with_history tr self args kw w =
      create_first_text tr self (chat_with_history_params a) w"
    using assms by (simp add: chat_with_history_def)
  have msgs: "dict_get (chat_with_history_params a) ''messages'' = Some (arg_first a)"
    by (simp add: chat_with_history_params_lookup [OF kwargs_distinct [OF assms]]
          kwargs_lookup [OF assms] param_names_def)
  have ret: "chat_with_history tr self args kw w = (Inr (block_text b), self, w\<lparr> tstate := ts \<rparr>)"
    if "messages_create tr (client self) (chat_with_history_params a) (tstate w) = (Inr r, ts)"
      and "content r = b # bs" for r ts b bs
    using that by (simp add: run create_first_text_reply)
  from first run msgs ret show ?thesis by blast
qed

theorem chat_with_history_passes_turns_witness:
  "chat_with_history pong_stub test_client
      [PList [PDict [(''role'', PStr ''user''), (''content'', PStr ''My name is Alice.'')],
              PDict [(''role'', PStr ''assistant''), (''content'', PStr ''Nice to meet you, Alice!'')],
              PDict [(''role'', PStr ''user''), (''content'', PStr ''What is my name?'')]]]
      [] (fresh_world []) =
     (Inr ''pong'', test_client,
      \<lparr> environ = [],
        tstate = [Create (Anthropic (PStr ''sk-test''))
                    [(''model'', PStr ''claude-3-5-sonnet-20241022''),
                     (''messages'',
                      PList [PDict [(''role'', PStr ''user''), (''content'', PStr ''My name is Alice.'')],
                             PDict [(''role'', PStr ''assistant''), (''content'', PStr ''Nice to meet you, Alice!'')],
                             PDict [(''role'', PStr ''user''), (''content'', PStr ''What is my name?'')]]),
                     (''max_tokens'', PInt 1024),
                     (''temperature'', PFloat 0x3FF0000000000000)]] \<rparr>)"
  using chat_with_history_passes_turns
    [of "[PList [PDict [(''role'', PStr ''user''), (''content'', PStr ''My name is Alice.'')],
              PDict [(''role'', PStr ''assistant''), (''content'', PStr ''Nice to meet you, Alice!'')],
              PDict [(''role'', PStr ''user''), (''content'', PStr ''What is my name?'')]]]" "[]"
        "\<lparr> arg_first = PList [PDict [(''role'', PStr ''user''), (''content'', PStr ''My name is Alice.'')],
              PDict [(''role'', PStr ''assistant''), (''content'', PStr ''Nice to meet you, Alice!'')],
              PDict [(''role'', PStr ''user''), (''content'', PStr ''What is my name?'')]],
           arg_model = default_model, arg_system_prompt = PNone,
           arg_max_tokens = PInt 1024, arg_temperature = default_temperature, arg_kwargs = [] \<rparr>"
        pong_stub test_client "fresh_world []"]
  by (simp add: bind_chat_args_def arg_value_def param_names_def create_first_text_def
        first_text_def chat_with_history_params_def dict_merge_def pong_stub_def recording_stub_def
        test_client_def fresh_world_def default_model_def default_temperature_def)

section \<open>Streaming chat\<close>

text \<open>
  Claim C6. Let the streaming call of the transport deliver the fragments \<open>fs\<close> and then
  end, on every request. For every accepted call, \<^verbatim>\<open>chat_stream\<close> returns a generator and
  touches nothing; iterating it to the end yields exactly \<open>fs\<close>, in order, without an
  exception, and leaves the generator closed. A second call, made on the facade and the
  world the first iteration left, yields \<open>fs\<close> again.
\<close>

theorem chat_stream_yields_fragments:
  assumes "bind_chat_args ''message'' args kw = Inr a"
    and "bind_chat_args ''message'' args' kw' = Inr a'"
    and "\<forall>h params ts. fst (messages_stream tr h params ts) = Inr (fs, None)"
  shows "chat_stream self args kw w = (Inr (GenCreated a), self, w)
       \<and> fst (for_each tr (GenCreated a) self w) = (fs, None)
       \<and> fst (snd (for_each tr (GenCreated a) self w)) = GenClosed
       \<and> (case snd (snd (for_each tr (GenCreated a) self w)) of
            (self1, w1) \<Rightarrow>
              self1 = self
            \<and> chat_stream self1 args' kw' w1 = (Inr (GenCreated a'), self1, w1)
            \<and> fst (for_each tr (GenCreated a') self1 w1) = (fs, None))"
proof -
  have run: "fst (for_each tr (GenCreated b) self v) = (fs, None)
      \<and> fst (snd (for_each tr (GenCreated b) self v)) = GenClosed
      \<and> fst (snd (snd (for_each tr (GenCreated b) self v))) = self" for b v
  proof -
    obtain res ts where m: "messages_stream tr (client self) (chat_stream_params b) (tstate v) = (res, ts)"
      by (cases "messages_stream tr (client self) (chat_stream_params b) (tstate v)")
    with assms(3) have "res = Inr (fs, None)"
      by (metis fst_conv)
    with m show ?thesis by (simp add: for_each_created)
  qed
  have call: "chat_stream self args kw w = (Inr (GenCreated a), self, w)"
    using assms(1) by (simp add: chat_stream_def)
  have call': "chat_stream self args' kw' v = (Inr (GenCreated a'), self, v)" for v
    using assms(2) by (simp add: chat_stream_def)
  obtain g1 self1 w1 where r: "snd (for_each tr (GenCreated a) self w) = (g1, self1, w1)"
    by (cases "snd (for_each tr (GenCreated a) self w)")
  with run [of a w] have s1: "self1 = self" by simp
  from call run [of a w] run [of a' w1] call' [of w1] r s1 show ?thesis
    by simp
qed

theorem chat_stream_yields_fragments_witness:
  "fst (for_each pong_stub
          (GenCreated \<lparr> arg_first = PStr ''Tell me a short joke.'', arg_model = default_model,
             arg_system_prompt = PNone, arg_max_tokens = PInt 1024,
             arg_temperature = default_temperature, arg_kwargs = [] \<rparr>)
          test_client (fresh_world [])) = ([''a'', ''b'', ''c''], None)
   \<and> chat_stream test_client [PStr ''Tell me a short joke.''] [] (fresh_world []) =
       (Inr (GenCreated \<lparr> arg_first = PStr ''Tell me a short joke.'', arg_model = default_model,
             arg_system_prompt = PNone, arg_max_tokens = PInt 1024,
             arg_temperature = default_temperature, arg_kwargs = [] \<rparr>),
        test_client, fresh_world [])"
  using chat_stream_yields_fragments
    [of "[PStr ''Tell me a short joke.'']" "[]"
        "\<lparr> arg_first = PStr ''Tell me a short joke.'', arg_model = default_model,
             arg_system_prompt = PNone, arg_max_tokens = PInt 1024,
             arg_temperature = default_temperature, arg_kwargs = [] \<rparr>"
        "[PStr ''Tell me a short joke.'']" "[]"
        "\<lparr> arg_first = PStr ''Tell me a short joke.'', arg_model = default_model,
             arg_system_prompt = PNone, arg_max_tokens = PInt 1024,
             arg_temperature = default_temperature, arg_kwargs = [] \<rparr>"
        pong_stub "[''a'', ''b'', ''c'']" test_client "fresh_world []"]
  by (simp add: bind_chat_args_def arg_value_def param_names_def pong_stub_def
        recording_stub_def)

text \<open>
  Claim C7, as amended. Let the stream opened for the request of an accepted call deliver
  the fragments \<open>fs\<close> and then end (\<open>r = None\<close>) or raise \<open>e\<close> (\<open>r = Some e\<close>). Iterating
  to the end gives the caller \<open>fs\<close> and then the end or the exception \<open>e\<close> itself, and the
  transport has seen the stream entered and then left (\<open>stream_exit\<close>) once. A caller that
  stops after \<open>n\<close> fragments, with \<open>0 < n \<le> length fs\<close>, leaves the generator suspended
  inside the \<^verbatim>\<open>with\<close> block: the stream has been entered and not left. It is left, once,
  when the generator is closed, by the caller's \<^verbatim>\<open>close()\<close> or by the interpreter when it
  finalises the generator. A generator closed before its first \<^verbatim>\<open>next\<close> never entered the
  stream.
\<close>

theorem chat_stream_releases:
  assumes "bind_chat_args ''message'' args kw = Inr a"
    and "messages_stream tr (client self) (chat_stream_params a) (tstate w) = (Inr (fs, r), ts)"
  shows "chat_stream self args kw w = (Inr (GenCreated a), self, w)
       \<and> for_each tr (GenCreated a) self w =
           ((fs, r), GenClosed, self, w\<lparr> tstate := stream_exit tr ts \<rparr>)
       \<and> (0 < n \<and> n \<le> length fs \<longrightarrow>
            take_items n tr (GenCreated a) self w =
              ((take n fs, None), GenSuspended (drop n fs) r, self, w\<lparr> tstate := ts \<rparr>))
       \<and> abandon_after n tr (GenCreated a) self w =
           (if n = 0 then (([], None), GenClosed, self, w)
            else if n \<le> length fs
            then ((take n fs, None), GenClosed, self, w\<lparr> tstate := stream_exit tr ts \<rparr>)
            else ((fs, r), GenClosed, self, w\<lparr> tstate := stream_exit tr ts \<rparr>))"
proof -
  have call: "chat_stream self args kw w = (Inr (GenCreated a), self, w)"
    using assms(1) by (simp add: chat_stream_def)
  have all: "for_each tr (GenCreated a) self w =
      ((fs, r), GenClosed, self, w\<lparr> tstate := stream_exit tr ts \<rparr>)"
    using assms(2) by (simp add: for_each_created)
  have held: "take_items n tr (GenCreated a) self w =
      ((take n fs, None), GenSuspended (drop n fs) r, self, w\<lparr> tstate := ts \<rparr>)"
    if "0 < n \<and> n \<le> length fs"
    using that by (simp add: take_items_created [OF assms(2)])
  have never: "abandon_after 0 tr (GenCreated a) self w = (([], None), GenClosed, self, w)"
    by (simp add: abandon_after_def gen_close_def)
  have early: "abandon_after n tr (GenCreated a) self w =
      ((take n fs, None), GenClosed, self, w\<lparr> tstate := stream_exit tr ts \<rparr>)"
    if "0 < n" "n \<le> length fs"
    using that by (simp add: abandon_after_def take_items_created [OF assms(2)] gen_close_def)
  have late: "abandon_after n tr (GenCreated a) self w =
      ((fs, r), GenClosed, self, w\<lparr> tstate := stream_exit tr ts \<rparr>)"
    if "length fs < n"
    using that
    by (simp add: abandon_after_def take_items_created_beyond [OF assms(2)] gen_close_def)
  have "abandon_after n tr (GenCreated a) self w =
           (if n = 0 then (([], None), GenClosed, self, w)
            else if n \<le> length fs
            then ((take n fs, None), GenClosed, self, w\<lparr> tstate := stream_exit tr ts \<rparr>)
            else ((fs, r), GenClosed, self, w\<lparr> tstate := stream_exit tr ts \<rparr>))"
  proof (cases "n = 0")
    case True
    with never show ?thesis by simp
  next
    case False
    show ?thesis
    proof (cases "n \<le> length fs")
      case True
      with False early show ?thesis by simp
    next
      case False
      with \<open>n \<noteq> 0\<close> late show ?thesis by simp
    qed
  qed
  with call all held show ?thesis by blast
qed

theorem chat_stream_releases_witness:
  "for_each failing_stub
     (GenCreated \<lparr> arg_first = PStr ''Write a haiku about coding.'', arg_model = default_model,
        arg_system_prompt = PNone, arg_max_tokens = PInt 1024,
        arg_temperature = default_temperature, arg_kwargs = [] \<rparr>)
     test_client (fresh_world []) =
     (([''a'', ''b''], Some (VendorError ''APIConnectionError'')), GenClosed, test_client,
      \<lparr> environ = [],
        tstate = [StreamEnter (Anthropic (PStr ''sk-test''))
                    [(''model'', PStr ''claude-3-5-sonnet-20241022''),
                     (''messages'',
                      PList [PDict [(''role'', PStr ''user''),
                                    (''content'', PStr ''Write a haiku about coding.'')]]),
                     (''max_tokens'', PInt 1024),
                     (''temperature'', PFloat 0x3FF0000000000000),
                     (''stream'', PBool True)],
                  StreamExit] \<rparr>)
   \<and> snd (snd (snd (abandon_after 1 failing_stub
     (GenCreated \<lparr> arg_first = PStr ''Write a haiku about coding.'', arg_model = default_model,
        arg_system_prompt = PNone, arg_max_tokens = PInt 1024,
        arg_temperature = default_temperature, arg_kwargs = [] \<rparr>)
     test_client (fresh_world [])))) =
      \<lparr> environ = [],
        tstate = [StreamEnter (Anthropic (PStr ''sk-test''))
                    [(''model'', PStr ''claude-3-5-sonnet-20241022''),
                     (''messages'',
                      PList [PDict [(''role'', PStr ''user''),
                                    (''content'', PStr ''Write a haiku about coding.'')]]),
                     (''max_tokens'', PInt 1024),
                     (''temperature'', PFloat 0x3FF0000000000000),
                     (''stream'', PBool True)],
                  StreamExit] \<rparr>"
  using chat_stream_releases
    [of "[PStr ''Write a haiku about coding.'']" "[]"
        "\<lparr> arg_first = PStr ''Write a haiku about coding.'', arg_model = default_model,
           arg_system_prompt = PNone, arg_max_tokens = PInt 1024,
           arg_temperature = default_temperature, arg_kwargs = [] \<rparr>"
        failing_stub test_client "fresh_world []"
        "[''a'', ''b'']" "Some (VendorError ''APIConnectionError'')"
        "[StreamEnter (Anthropic (PStr ''sk-test''))
                    [(''model'', PStr ''claude-3-5-sonnet-20241022''),
                     (''messages'',
                      PList [PDict [(''role'', PStr ''user''),
                                    (''content'', PStr ''Write a haiku about coding.'')]]),
                     (''max_tokens'', PInt 1024),
                     (''temperature'', PFloat 0x3FF0000000000000),
                     (''stream'', PBool True)]]" 1]
  by (simp add: bind_chat_args_def arg_value_def param_names_def chat_stream_params_def
        dict_merge_def failing_stub_def recording_stub_def test_client_def fresh_world_def
        default_model_def default_temperature_def)


text \<open>
  Claim C7 as written has the stream released on early abandonment, with no connection
  left open. A caller that takes one fragment and stops, as
  \<^verbatim>\<open>g = client.chat_stream(...); next(g)\<close> does, leaves the generator suspended at line 107:
  the transport has recorded the entry of the stream and no exit. Nothing in lines 105 to
  107 closes the generator.
\<close>

theorem suspended_generator_counterexample:
  "take_items (Suc 0) pong_stub
     (GenCreated \<lparr> arg_first = PStr ''Write a haiku about coding.'', arg_model = default_model,
        arg_system_prompt = PNone, arg_max_tokens = PInt 1024,
        arg_temperature = default_temperature, arg_kwargs = [] \<rparr>)
     test_client (fresh_world []) =
     (([''a''], None), GenSuspended [''b'', ''c''] None, test_client,
      \<lparr> environ = [],
        tstate = [StreamEnter (Anthropic (PStr ''sk-test''))
                    [(''model'', PStr ''claude-3-5-sonnet-20241022''),
                     (''messages'',
                      PList [PDict [(''role'', PStr ''user''),
                                    (''content'', PStr ''Write a haiku about coding.'')]]),
                     (''max_tokens'', PInt 1024),
                     (''temperature'', PFloat 0x3FF0000000000000),
                     (''stream'', PBool True)]] \<rparr>)"
  by (simp add: gen_next_def stream_loop_def chat_stream_params_def dict_merge_def
        pong_stub_def recording_stub_def test_client_def fresh_world_def
        default_model_def default_temperature_def)

section \<open>Errors of the transport\<close>

text \<open>
  Claim C9. For accepted calls: when the synchronous call of the transport raises \<open>e\<close>,
  \<^verbatim>\<open>chat\<close> and \<^verbatim>\<open>chat_with_history\<close> raise \<open>e\<close>; when the streaming call raises \<open>e\<close> on
  entry, the first \<^verbatim>\<open>next\<close> of the generator raises \<open>e\<close>; when the stream raises \<open>e\<close> after
  the fragments \<open>fs\<close>, the iterating caller receives \<open>fs\<close> and then \<open>e\<close>. In each case the
  facade returned is the facade given, and the transport's state is the one its single
  failing call left (after \<open>stream_exit\<close>, when a stream had been entered): no second call.
\<close>

theorem transport_error_propagates:
  assumes "bind_chat_args ''message'' args kw = Inr a"
    and "bind_chat_args ''messages'' args' kw' = Inr a'"
  shows "(messages_create tr (client self) (chat_params a) (tstate w) = (Inl e, ts) \<longrightarrow>
            chat tr self args kw w = (Inl e, self, w\<lparr> tstate := ts \<rparr>))
       \<and> (messages_create tr (client self) (chat_with_history_params a') (tstate w) = (Inl e, ts) \<longrightarrow>
            chat_with_history tr self args' kw' w = (Inl e, self, w\<lparr> tstate := ts \<rparr>))
       \<and> chat_stream self args kw w = (Inr (GenCreated a), self, w)
       \<and> (messages_stream tr (client self) (chat_stream_params a) (tstate w) = (Inl e, ts) \<longrightarrow>
            gen_next tr (GenCreated a) self w = (Inl e, GenClosed, self, w\<lparr> tstate := ts \<rparr>)
          \<and> for_each tr (GenCreated a) self w =
              (([], Some e), GenClosed, self, w\<lparr> tstate := ts \<rparr>))
       \<and> (messages_stream tr (client self) (chat_stream_params a) (tstate w) = (Inr (fs, Some e), ts) \<longrightarrow>
            for_each tr (GenCreated a) self w =
              ((fs, Some e), GenClosed, self, w\<lparr> tstate := stream_exit tr ts \<rparr>))"
proof -
  have c1: "chat tr self args kw w = (Inl e, self, w\<lparr> tstate := ts \<rparr>)"
    if "messages_create tr (client self) (chat_params a) (tstate w) = (Inl e, ts)"
    using that assms(1) by (simp add: chat_def create_first_text_error)
  have c2: "chat_with_history tr self args' kw' w = (Inl e, self, w\<lparr> tstate := ts \<rparr>)"
    if "messages_create tr (client self) (chat_with_history_params a') (tstate w) = (Inl e, ts)"
    using that assms(2) by (simp add: chat_with_history_def create_first_text_error)
  have c3: "chat_stream self args kw w = (Inr (GenCreated a), self, w)"
    using assms(1) by (simp add: chat_stream_def)
  have c4: "gen_next tr (GenCreated a) self w = (Inl e, GenClosed, self, w\<lparr> tstate := ts \<rparr>)
          \<and> for_each tr (GenCreated a) self w =
              (([], Some e), GenClosed, self, w\<lparr> tstate := ts \<rparr>)"
    if "messages_stream tr (client self) (chat_stream_params a) (tstate w) = (Inl e, ts)"
    using that by (simp add: gen_next_def for_each_created)
  have c5: "for_each tr (GenCreated a) self w =
              ((fs, Some e), GenClosed, self, w\<lparr> tstate := stream_exit tr ts \<rparr>)"
    if "messages_stream tr (client self) (chat_stream_params a) (tstate w) = (Inr (fs, Some e), ts)"
    using that by (simp add: for_each_created)
  from c1 c2 c3 c4 c5 show ?thesis by blast
qed

theorem transport_error_propagates_witness:
  "chat failing_stub test_client [PStr ''What is artificial intelligence?''] [] (fresh_world []) =
     (Inl (VendorError ''RateLimitError''), test_client,
      \<lparr> environ = [],
        tstate = [Create (Anthropic (PStr ''sk-test''))
                    [(''model'', PStr ''claude-3-5-sonnet-20241022''),
                     (''messages'',
                      PList [PDict [(''role'', PStr ''user''),
                                    (''content'', PStr ''What is artificial intelligence?'')]]),
                     (''max_tokens'', PInt 1024),
                     (''temperature'', PFloat 0x3FF0000000000000)]] \<rparr>)"
  using transport_error_propagates
    [of "[PStr ''What is artificial intelligence?'']" "[]"
        "\<lparr> arg_first = PStr ''What is artificial intelligence?'', arg_model = default_model,
           arg_system_prompt = PNone, arg_max_tokens = PInt 1024,
           arg_temperature = default_temperature, arg_kwargs = [] \<rparr>"
        "[PList []]" "[]"
        "\<lparr> arg_first = PList [], arg_model = default_model,
           arg_system_prompt = PNone, arg_max_tokens = PInt 1024,
           arg_temperature = default_temperature, arg_kwargs = [] \<rparr>"
        failing_stub test_client "fresh_world []" "VendorError ''RateLimitError''"
        "[Create (Anthropic (PStr ''sk-test''))
                    [(''model'', PStr ''claude-3-5-sonnet-20241022''),
                     (''messages'',
                      PList [PDict [(''role'', PStr ''user''),
                                    (''content'', PStr ''What is artificial intelligence?'')]]),
                     (''max_tokens'', PInt 1024),
                     (''temperature'', PFloat 0x3FF0000000000000)]]"]
  by (simp add: bind_chat_args_def arg_value_def param_names_def chat_params_def
        dict_merge_def failing_stub_def recording_stub_def test_client_def fresh_world_def
        default_model_def default_temperature_def)

section \<open>The model list\<close>

text \<open>
  Claim C8. \<^verbatim>\<open>get_available_models()\<close> returns the same fixed, non-empty list of five
  model identifiers for every facade and every world (whatever the environment and the
  state of the transport), in the same order, and returns the facade and the world
  unchanged: no transport function is applied.
\<close>

theorem get_available_models_fixed:
  "get_available_models self w =
     ([''claude-3-5-sonnet-20241022'', ''claude-3-5-haiku-20241022'',
       ''claude-3-opus-20240229'', ''claude-3-sonnet-20240229'',
       ''claude-3-haiku-20240307''], self, w)
   \<and> fst (get_available_models self w) = fst (get_available_models self' w')
   \<and> fst (get_available_models self w) \<noteq> []"
  by (simp add: get_available_models_def)

end
